theory Spec2Isabelle
  imports Main "HOL-Library.Word"
begin

section \<open>Free store and errors\<close>

text \<open>
  The library keeps three kinds of objects on the free store: pointees (\<open>new T\<close>),
  reference counters (\<open>new std::atomic<int>(1)\<close>) and callable holders
  (\<open>new CallableHolder<...>\<close>). Each kind lives in a heap of its own. An address is an
  index into the heap; \<open>new\<close> appends a cell, \<open>delete\<close> empties it, and an emptied
  cell is never handed out again, so a pointer to it stays dangling.
\<close>

type_synonym addr = nat

type_synonym 'c heap = "'c option list"

text \<open>
  \<open>Throw s\<close> is the statement \<open>throw "s"\<close>: the thrown object is a \<open>const char *\<close>
  pointing at the string literal. \<open>Terminate\<close> is \<open>std::terminate\<close>: an exception
  leaves a function that is \<open>noexcept\<close>, as every destructor implicitly is.
  \<open>Undefined\<close> stands for undefined behaviour: a read, write or \<open>delete\<close> through a
  pointer whose cell is not live.
\<close>

datatype error = Throw string | Terminate | Undefined

text \<open>The outcome of a \<open>noexcept\<close> function whose body has the given outcome.\<close>

fun noexcept :: "error + 'a \<Rightarrow> error + 'a" where
  "noexcept (Inl (Throw text)) = Inl Terminate"
| "noexcept (Inl Terminate) = Inl Terminate"
| "noexcept (Inl Undefined) = Inl Undefined"
| "noexcept (Inr v) = Inr v"

definition heap_load :: "addr \<Rightarrow> 'c heap \<Rightarrow> 'c option" where
  "heap_load a h = (if a < length h then h ! a else None)"

definition heap_new :: "'c \<Rightarrow> 'c heap \<Rightarrow> addr \<times> 'c heap" where
  "heap_new c h = (length h, h @ [Some c])"

definition heap_store :: "addr \<Rightarrow> 'c \<Rightarrow> 'c heap \<Rightarrow> 'c heap" where
  "heap_store a c h = h[a := Some c]"

definition heap_delete :: "addr \<Rightarrow> 'c heap \<Rightarrow> error + 'c heap" where
  "heap_delete a h =
     (case heap_load a h of
        None \<Rightarrow> Inl Undefined
      | Some c \<Rightarrow> Inr (h[a := None]))"

section \<open>Function (function.hpp)\<close>

text \<open>
  A \<open>Function\<close> object is one raw pointer \<open>callable_\<close> to a heap-allocated holder;
  \<open>None\<close> is \<open>nullptr\<close>. A holder cell stores the captured callable, a value of
  type \<open>'c\<close>. (\<open>Function() = default\<close> gives \<open>callable_\<close> no initialiser; the empty
  instance below is the value-initialised one, \<open>Function{}\<close>, whose pointer is zeroed.)
  Members are named as in the source without the trailing underscore, which is reserved
  here, and with the class prefixed where two classes share a member name.
\<close>

record Function =
  callable :: "addr option"

definition Function_empty :: Function where
  "Function_empty = \<lparr>callable = None\<rparr>"

text \<open>\<open>template <typename Callable> Function(Callable &&callable)\<close>: a new holder.\<close>

definition Function_ctor :: "'c \<Rightarrow> 'c heap \<Rightarrow> Function \<times> 'c heap" where
  "Function_ctor c h = (let (a, h') = heap_new c h in (\<lparr>callable = Some a\<rparr>, h'))"

text \<open>
  \<open>operator=(const Function &other)\<close> for \<open>this != &other\<close>:
  \<open>callable_ = other.callable_ ? other.callable_->clone() : nullptr\<close>. The clone is a
  new holder with a copy of the callable; the holder \<open>this\<close> pointed to before is not
  deleted, so the previous value of \<open>this\<close> plays no role.
\<close>

definition Function_copy_assign :: "Function \<Rightarrow> 'c heap \<Rightarrow> error + (Function \<times> 'c heap)" where
  "Function_copy_assign other h =
     (case callable other of
        None \<Rightarrow> Inr (\<lparr>callable = None\<rparr>, h)
      | Some a \<Rightarrow>
          (case heap_load a h of
             None \<Rightarrow> Inl Undefined
           | Some c \<Rightarrow> Inr (Function_ctor c h)))"

text \<open>
  \<open>Function(Function &&other) noexcept = default\<close> and the defaulted move assignment:
  member-wise move of the one raw pointer, which copies it. The result is the pair of the
  target and the source as it is left behind.
\<close>

definition Function_move :: "Function \<Rightarrow> Function \<times> Function" where
  "Function_move other = (\<lparr>callable = callable other\<rparr>, other)"

definition Function_move_assign :: "Function \<Rightarrow> Function \<Rightarrow> Function \<times> Function" where
  "Function_move_assign this other = (this\<lparr>callable := callable other\<rparr>, other)"

text \<open>\<open>~Function()\<close>: \<open>if (callable_ != nullptr) delete callable_\<close>.\<close>

definition Function_dtor :: "Function \<Rightarrow> 'c heap \<Rightarrow> error + 'c heap" where
  "Function_dtor f h =
     (case callable f of
        None \<Rightarrow> Inr h
      | Some a \<Rightarrow> heap_delete a h)"

text \<open>
  \<open>operator()(Args... args)\<close>. The parameter \<open>app\<close> is the call operator of the captured
  callable: \<open>app c args\<close> is what \<open>c(args...)\<close> returns or throws.
\<close>

definition Function_call ::
  "('c \<Rightarrow> 'a \<Rightarrow> error + 'r) \<Rightarrow> 'c heap \<Rightarrow> Function \<Rightarrow> 'a \<Rightarrow> error + 'r" where
  "Function_call app h f args =
     (case callable f of
        None \<Rightarrow> Inl (Throw ''wtf'')
      | Some a \<Rightarrow>
          (case heap_load a h of
             None \<Rightarrow> Inl Undefined
           | Some c \<Rightarrow> app c args))"

section \<open>Smart pointers (memory.hpp)\<close>

text \<open>
  A destroyer is what a \<open>Function<void(T *)>\<close> holder captures: the library's own
  \<open>SharedPtr::Deleter\<close> / \<open>UniquePtr::DefaultDeleter\<close> (both \<open>delete ptr\<close>), or a
  callable supplied by the caller, identified by a number. Every invocation of a destroyer
  is recorded in \<open>calls\<close> with the pointer it received.
\<close>

datatype deleter = DefaultDeleter | UserDeleter nat

record 'obj state =
  objects :: "'obj heap"
  counters :: "32 word heap"
  holders :: "deleter heap"
  calls :: "(deleter \<times> addr option) list"

text \<open>
  The call operator of a destroyer. \<open>delete ptr\<close> on a null pointer does nothing; on a
  pointer whose object is gone it is undefined. A caller's destroyer is only recorded.
\<close>

fun run_deleter :: "deleter \<Rightarrow> addr option \<times> 'obj state \<Rightarrow> error + 'obj state" where
  "run_deleter DefaultDeleter (None, s) = Inr (s\<lparr>calls := calls s @ [(DefaultDeleter, None)]\<rparr>)"
| "run_deleter DefaultDeleter (Some a, s) =
     (case heap_delete a (objects s) of
        Inl e \<Rightarrow> Inl e
      | Inr os \<Rightarrow> Inr (s\<lparr>objects := os, calls := calls s @ [(DefaultDeleter, Some a)]\<rparr>))"
| "run_deleter (UserDeleter k) (p, s) = Inr (s\<lparr>calls := calls s @ [(UserDeleter k, p)]\<rparr>)"

text \<open>\<open>deleter_(ptr_)\<close> and the destructor of the member \<open>deleter_\<close>.\<close>

definition invoke_deleter :: "Function \<Rightarrow> addr option \<Rightarrow> 'obj state \<Rightarrow> error + 'obj state" where
  "invoke_deleter f p s = Function_call run_deleter (holders s) f (p, s)"

definition destroy_deleter :: "Function \<Rightarrow> 'obj state \<Rightarrow> error + 'obj state" where
  "destroy_deleter f s =
     (case Function_dtor f (holders s) of
        Inl e \<Rightarrow> Inl e
      | Inr hs \<Rightarrow> Inr (s\<lparr>holders := hs\<rparr>))"

subsection \<open>SharedPtr\<close>

record SharedPtr =
  sp_ptr :: "addr option"
  sp_ref_count :: "addr option"
  sp_deleter :: Function

text \<open>
  \<open>SharedPtr()\<close> and \<open>explicit SharedPtr(T *ptr, Dt deleter = Deleter())\<close>. The argument
  \<open>d\<close> is the callable the caller passes; the by-value \<open>Function\<close> parameter built from
  it is a temporary of the calling expression. \<open>deleter_(deleter)\<close> and
  \<open>deleter_ = deleter\<close> give \<open>deleter_\<close> a holder of its own with a copy of that
  callable (a \<open>Function\<close> kept inside a holder is represented by the callable it holds).
\<close>

definition SharedPtr_default :: "'obj state \<Rightarrow> SharedPtr \<times> 'obj state" where
  "SharedPtr_default s =
     (let (f, hs) = Function_ctor DefaultDeleter (holders s)
      in (\<lparr>sp_ptr = None, sp_ref_count = None, sp_deleter = f\<rparr>, s\<lparr>holders := hs\<rparr>))"

definition SharedPtr_ctor :: "addr option \<Rightarrow> deleter \<Rightarrow> 'obj state \<Rightarrow> SharedPtr \<times> 'obj state" where
  "SharedPtr_ctor ptr d s =
     (let (c, cs) = heap_new 1 (counters s);
          (f, hs) = Function_ctor d (holders s)
      in (\<lparr>sp_ptr = ptr, sp_ref_count = Some c, sp_deleter = f\<rparr>,
          s\<lparr>counters := cs, holders := hs\<rparr>))"

text \<open>\<open>ref_count_->fetch_add(1, ...)\<close> and \<open>ref_count_->fetch_sub(1, ...)\<close> on 32-bit \<open>int\<close>.\<close>

definition fetch_add :: "addr \<Rightarrow> 'obj state \<Rightarrow> error + (32 word \<times> 'obj state)" where
  "fetch_add c s =
     (case heap_load c (counters s) of
        None \<Rightarrow> Inl Undefined
      | Some n \<Rightarrow> Inr (n, s\<lparr>counters := heap_store c (n + 1) (counters s)\<rparr>))"

definition fetch_sub :: "addr \<Rightarrow> 'obj state \<Rightarrow> error + (32 word \<times> 'obj state)" where
  "fetch_sub c s =
     (case heap_load c (counters s) of
        None \<Rightarrow> Inl Undefined
      | Some n \<Rightarrow> Inr (n, s\<lparr>counters := heap_store c (n - 1) (counters s)\<rparr>))"

text \<open>\<open>use_count()\<close>.\<close>

definition use_count :: "SharedPtr \<Rightarrow> 'obj state \<Rightarrow> error + int" where
  "use_count sp s =
     (case sp_ref_count sp of
        None \<Rightarrow> Inr 0
      | Some c \<Rightarrow>
          (case heap_load c (counters s) of
             None \<Rightarrow> Inl Undefined
           | Some n \<Rightarrow> Inr (sint n)))"

text \<open>The private \<open>release()\<close>.\<close>

definition release :: "SharedPtr \<Rightarrow> 'obj state \<Rightarrow> error + 'obj state" where
  "release sp s =
     (case sp_ref_count sp of
        None \<Rightarrow> Inr s
      | Some c \<Rightarrow>
          (case fetch_sub c s of
             Inl e \<Rightarrow> Inl e
           | Inr (n, s1) \<Rightarrow>
               if n = 1 then
                 (case invoke_deleter (sp_deleter sp) (sp_ptr sp) s1 of
                    Inl e \<Rightarrow> Inl e
                  | Inr s2 \<Rightarrow>
                      (case heap_delete c (counters s2) of
                         Inl e \<Rightarrow> Inl e
                       | Inr cs \<Rightarrow> Inr (s2\<lparr>counters := cs\<rparr>)))
               else Inr s1))"

text \<open>
  The tail shared by the copy constructor and the copy assignment: take over the three
  members of \<open>other\<close> (\<open>deleter_ = other.deleter_\<close> clones the holder), then count up.
\<close>

definition share_from :: "SharedPtr \<Rightarrow> 'obj state \<Rightarrow> error + (SharedPtr \<times> 'obj state)" where
  "share_from other s =
     (case Function_copy_assign (sp_deleter other) (holders s) of
        Inl e \<Rightarrow> Inl e
      | Inr (f, hs) \<Rightarrow>
          (let this = \<lparr>sp_ptr = sp_ptr other, sp_ref_count = sp_ref_count other, sp_deleter = f\<rparr>;
               s1 = s\<lparr>holders := hs\<rparr>
           in case sp_ref_count this of
                None \<Rightarrow> Inr (this, s1)
              | Some c \<Rightarrow>
                  (case fetch_add c s1 of
                     Inl e \<Rightarrow> Inl e
                   | Inr (n, s2) \<Rightarrow> Inr (this, s2))))"

text \<open>\<open>SharedPtr(const SharedPtr<T> &other)\<close>.\<close>

definition SharedPtr_copy :: "SharedPtr \<Rightarrow> 'obj state \<Rightarrow> error + (SharedPtr \<times> 'obj state)" where
  "SharedPtr_copy other s = share_from other s"


text \<open>
  \<open>SharedPtr(SharedPtr<T> &&other)\<close> and \<open>operator=(SharedPtr<T> &&other)\<close>: the result
  holds the target and the source as it is left behind. Both write
  \<open>deleter_ = std::move(other.deleter_)\<close>, the move assignment of \<open>Function\<close>; in the
  constructor the member assigned to has no holder yet. \<open>self\<close> is the outcome of
  \<open>this == &other\<close>. Both are declared \<open>noexcept\<close>; the assignment calls
  \<open>release()\<close>, which can throw.
\<close>

definition SharedPtr_move :: "SharedPtr \<Rightarrow> SharedPtr \<times> SharedPtr" where
  "SharedPtr_move other =
     (let (f, g) = Function_move_assign Function_empty (sp_deleter other)
      in (\<lparr>sp_ptr = sp_ptr other, sp_ref_count = sp_ref_count other, sp_deleter = f\<rparr>,
          other\<lparr>sp_ptr := None, sp_ref_count := None, sp_deleter := g\<rparr>))"

definition SharedPtr_move_assign ::
  "bool \<Rightarrow> SharedPtr \<Rightarrow> SharedPtr \<Rightarrow> 'obj state \<Rightarrow> error + (SharedPtr \<times> SharedPtr \<times> 'obj state)" where
  "SharedPtr_move_assign self this other s =
     noexcept
       (if self then Inr (this, other, s)
        else case release this s of
               Inl e \<Rightarrow> Inl e
             | Inr s1 \<Rightarrow>
                 (let (f, g) = Function_move_assign (sp_deleter this) (sp_deleter other)
                  in Inr (\<lparr>sp_ptr = sp_ptr other, sp_ref_count = sp_ref_count other, sp_deleter = f\<rparr>,
                          other\<lparr>sp_ptr := None, sp_ref_count := None, sp_deleter := g\<rparr>, s1)))"

text \<open>\<open>reset(T *ptr = nullptr, Dt deleter = Deleter())\<close>.\<close>

definition reset :: "SharedPtr \<Rightarrow> addr option \<Rightarrow> deleter \<Rightarrow> 'obj state \<Rightarrow> error + (SharedPtr \<times> 'obj state)" where
  "reset this ptr d s =
     (case release this s of
        Inl e \<Rightarrow> Inl e
      | Inr s1 \<Rightarrow>
          (case ptr of
             Some p \<Rightarrow>
               (let (c, cs) = heap_new 1 (counters s1);
                    (f, hs) = Function_ctor d (holders s1)
                in Inr (\<lparr>sp_ptr = Some p, sp_ref_count = Some c, sp_deleter = f\<rparr>,
                        s1\<lparr>counters := cs, holders := hs\<rparr>))
           | None \<Rightarrow> Inr (this\<lparr>sp_ptr := None, sp_ref_count := None\<rparr>, s1)))"

text \<open>
  \<open>~SharedPtr()\<close>: \<open>release()\<close>, then the member \<open>deleter_\<close> is destroyed. The
  destructor is implicitly \<open>noexcept\<close>: the \<open>"wtf"\<close> of an empty \<open>deleter_\<close>
  terminates the program.
\<close>

definition SharedPtr_dtor :: "SharedPtr \<Rightarrow> 'obj state \<Rightarrow> error + 'obj state" where
  "SharedPtr_dtor sp s =
     noexcept
       (case release sp s of
          Inl e \<Rightarrow> Inl e
        | Inr s1 \<Rightarrow> destroy_deleter (sp_deleter sp) s1)"

text \<open>
  A client of one shared counter: the owners that share it are kept in a list, and a
  script copy-constructs from the owner at an index or destroys the owner at an index.
  An index that names no owner leaves everything as it is.
\<close>

datatype owner_op = CopyOf nat | Destroy nat

fun owner_step ::
  "owner_op \<Rightarrow> SharedPtr list \<times> 'obj state \<Rightarrow> error + (SharedPtr list \<times> 'obj state)" where
  "owner_step (CopyOf i) (os, s) =
     (if i < length os then
        (case SharedPtr_copy (os ! i) s of
           Inl e \<Rightarrow> Inl e
         | Inr (b, s') \<Rightarrow> Inr (os @ [b], s'))
      else Inr (os, s))"
| "owner_step (Destroy i) (os, s) =
     (if i < length os then
        (case SharedPtr_dtor (os ! i) s of
           Inl e \<Rightarrow> Inl e
         | Inr s' \<Rightarrow> Inr (take i os @ drop (Suc i) os, s'))
      else Inr (os, s))"

fun owner_run ::
  "owner_op list \<Rightarrow> SharedPtr list \<times> 'obj state \<Rightarrow> error + (SharedPtr list \<times> 'obj state)" where
  "owner_run [] st = Inr st"
| "owner_run (x # xs) st =
     (case owner_step x st of
        Inl e \<Rightarrow> Inl e
      | Inr st' \<Rightarrow> owner_run xs st')"





subsection \<open>UniquePtr\<close>

record UniquePtr =
  up_ptr :: "addr option"
  up_deleter :: Function

text \<open>\<open>explicit UniquePtr(T *ptr = nullptr, Dt deleter = DefaultDeleter())\<close>.\<close>

definition UniquePtr_ctor :: "addr option \<Rightarrow> deleter \<Rightarrow> 'obj state \<Rightarrow> UniquePtr \<times> 'obj state" where
  "UniquePtr_ctor ptr d s =
     (let (f, hs) = Function_ctor d (holders s)
      in (\<lparr>up_ptr = ptr, up_deleter = f\<rparr>, s\<lparr>holders := hs\<rparr>))"

text \<open>\<open>UniquePtr(UniquePtr &&other)\<close>: the target, and the source as it is left behind.\<close>

definition UniquePtr_move :: "UniquePtr \<Rightarrow> UniquePtr \<times> UniquePtr" where
  "UniquePtr_move other =
     (let (f, g) = Function_move (up_deleter other)
      in (\<lparr>up_ptr = up_ptr other, up_deleter = f\<rparr>, other\<lparr>up_ptr := None, up_deleter := g\<rparr>))"

text \<open>\<open>reset(T *ptr = nullptr, Dt deleter = DefaultDeleter())\<close>.\<close>

definition UniquePtr_reset ::
  "UniquePtr \<Rightarrow> addr option \<Rightarrow> deleter \<Rightarrow> 'obj state \<Rightarrow> error + (UniquePtr \<times> 'obj state)" where
  "UniquePtr_reset this ptr d s =
     (case invoke_deleter (up_deleter this) (up_ptr this) s of
        Inl e \<Rightarrow> Inl e
      | Inr s1 \<Rightarrow>
          (let (f, hs) = Function_ctor d (holders s1)
           in Inr (\<lparr>up_ptr = ptr, up_deleter = f\<rparr>, s1\<lparr>holders := hs\<rparr>)))"

text \<open>
  \<open>operator=(UniquePtr &&other) noexcept\<close>; \<open>self\<close> is the outcome of
  \<open>this == &other\<close>.
\<close>

definition UniquePtr_move_assign ::
  "bool \<Rightarrow> UniquePtr \<Rightarrow> UniquePtr \<Rightarrow> 'obj state \<Rightarrow> error + (UniquePtr \<times> UniquePtr \<times> 'obj state)" where
  "UniquePtr_move_assign self this other s =
     noexcept
       (if self then Inr (this, other, s)
        else case UniquePtr_reset this None DefaultDeleter s of
               Inl e \<Rightarrow> Inl e
             | Inr (this1, s1) \<Rightarrow>
                 (let (f, g) = Function_move_assign (up_deleter this1) (up_deleter other)
                  in Inr (\<lparr>up_ptr = up_ptr other, up_deleter = f\<rparr>,
                          other\<lparr>up_ptr := None, up_deleter := g\<rparr>, s1)))"

text \<open>
  \<open>~UniquePtr() { deleter_(ptr_); }\<close>, then the member \<open>deleter_\<close> is destroyed;
  implicitly \<open>noexcept\<close>, as \<open>~SharedPtr()\<close> is.
\<close>

definition UniquePtr_dtor :: "UniquePtr \<Rightarrow> 'obj state \<Rightarrow> error + 'obj state" where
  "UniquePtr_dtor u s =
     noexcept
       (case invoke_deleter (up_deleter u) (up_ptr u) s of
          Inl e \<Rightarrow> Inl e
        | Inr s1 \<Rightarrow> destroy_deleter (up_deleter u) s1)"

subsection \<open>WeakPtr\<close>

text \<open>
  Two members of \<open>WeakPtr\<close> are ill-formed once instantiated and so have no run-time
  behaviour to embed: \<open>WeakPtr(const SharedPtr<T> &)\<close> reads \<open>sharedPtr.ref_count_\<close>,
  a private member of \<open>SharedPtr\<close>, which declares no friend; and \<open>lock()\<close> returns
  \<open>SharedPtr<T>(*this)\<close>, for which \<open>SharedPtr\<close> declares no constructor. What
  remains are \<open>WeakPtr()\<close>, the copies and moves of a \<open>WeakPtr\<close>, and \<open>expired()\<close>.
\<close>

record WeakPtr =
  wp_ptr :: "addr option"
  wp_ref_count :: "addr option"

definition WeakPtr_default :: WeakPtr where
  "WeakPtr_default = \<lparr>wp_ptr = None, wp_ref_count = None\<rparr>"

definition WeakPtr_copy :: "WeakPtr \<Rightarrow> WeakPtr" where
  "WeakPtr_copy other = \<lparr>wp_ptr = wp_ptr other, wp_ref_count = wp_ref_count other\<rparr>"

definition WeakPtr_move :: "WeakPtr \<Rightarrow> WeakPtr \<times> WeakPtr" where
  "WeakPtr_move other =
     (\<lparr>wp_ptr = wp_ptr other, wp_ref_count = wp_ref_count other\<rparr>,
      other\<lparr>wp_ptr := None, wp_ref_count := None\<rparr>)"

definition expired :: "WeakPtr \<Rightarrow> 'obj state \<Rightarrow> error + bool" where
  "expired w s =
     (case wp_ref_count w of
        None \<Rightarrow> Inr True
      | Some c \<Rightarrow>
          (case heap_load c (counters s) of
             None \<Rightarrow> Inl Undefined
           | Some n \<Rightarrow> Inr (n = 0)))"

section \<open>Any (any.hpp)\<close>

text \<open>
  \<open>Holder<T>\<close> is a pointee of the \<open>UniquePtr<Placeholder> content_\<close>. Its dynamic type
  is the tag \<open>holder_type\<close> (one tag per instantiation \<open>T\<close>), its payload is \<open>held\<close>.
  \<open>clone()\<close> is \<open>new Holder(T{})\<close>; the value-initialised \<open>T{}\<close> of each type is the
  parameter \<open>vinit\<close>.
\<close>

record ('ty, 'v) Holder =
  holder_type :: 'ty
  held :: 'v

definition clone :: "('ty \<Rightarrow> 'v) \<Rightarrow> ('ty, 'v) Holder \<Rightarrow> ('ty, 'v) Holder" where
  "clone vinit h = \<lparr>holder_type = holder_type h, held = vinit (holder_type h)\<rparr>"

record Any =
  content :: UniquePtr

text \<open>\<open>Any() = default\<close>: the member \<open>content_\<close> is a default \<open>UniquePtr\<close>.\<close>

definition Any_default :: "'obj state \<Rightarrow> Any \<times> 'obj state" where
  "Any_default s = (let (u, s') = UniquePtr_ctor None DefaultDeleter s in (\<lparr>content = u\<rparr>, s'))"

text \<open>\<open>template <typename T> Any(T &&t)\<close>.\<close>

definition Any_ctor ::
  "'ty \<Rightarrow> 'v \<Rightarrow> ('ty, 'v) Holder state \<Rightarrow> error + (Any \<times> ('ty, 'v) Holder state)" where
  "Any_ctor T t s =
     (let (a, s0) = Any_default s;
          (p, os) = heap_new \<lparr>holder_type = T, held = t\<rparr> (objects s0)
      in case UniquePtr_reset (content a) (Some p) DefaultDeleter (s0\<lparr>objects := os\<rparr>) of
           Inl e \<Rightarrow> Inl e
         | Inr (u, s1) \<Rightarrow> Inr (\<lparr>content = u\<rparr>, s1))"

text \<open>\<open>Any(const Any &other)\<close>.\<close>

definition Any_copy ::
  "('ty \<Rightarrow> 'v) \<Rightarrow> Any \<Rightarrow> ('ty, 'v) Holder state \<Rightarrow> error + (Any \<times> ('ty, 'v) Holder state)" where
  "Any_copy vinit other s =
     (let (a, s0) = Any_default s
      in case up_ptr (content other) of
           None \<Rightarrow> Inr (a, s0)
         | Some q \<Rightarrow>
             (case heap_load q (objects s0) of
                None \<Rightarrow> Inl Undefined
              | Some h \<Rightarrow>
                  (let (p, os) = heap_new (clone vinit h) (objects s0)
                   in case UniquePtr_reset (content a) (Some p) DefaultDeleter (s0\<lparr>objects := os\<rparr>) of
                        Inl e \<Rightarrow> Inl e
                      | Inr (u, s1) \<Rightarrow> Inr (\<lparr>content = u\<rparr>, s1))))"

text \<open>\<open>Any(Any &&other)\<close>: the target, and the source as it is left behind.\<close>

definition Any_move :: "Any \<Rightarrow> Any \<times> Any" where
  "Any_move other =
     (let (u, v) = UniquePtr_move (content other) in (\<lparr>content = u\<rparr>, other\<lparr>content := v\<rparr>))"

text \<open>\<open>has_value()\<close> and \<open>cast<T>()\<close>; the result of a cast is the held value.\<close>

definition has_value :: "Any \<Rightarrow> bool" where
  "has_value a = (up_ptr (content a) \<noteq> None)"

definition cast :: "'ty \<Rightarrow> Any \<Rightarrow> ('ty, 'v) Holder state \<Rightarrow> error + 'v" where
  "cast T a s =
     (case up_ptr (content a) of
        None \<Rightarrow> Inl (Throw ''wtfff'')
      | Some q \<Rightarrow>
          (case heap_load q (objects s) of
             None \<Rightarrow> Inl Undefined
           | Some h \<Rightarrow> if holder_type h = T then Inr (held h) else Inl (Throw ''wtfff'')))"

section \<open>What a handler can tell apart\<close>

text \<open>
  A \<open>catch\<close> clause selects an exception by the type of the thrown object. Every
  \<open>throw\<close> of the library throws a string literal, so the type is always the same.
\<close>

fun exception_type :: "error + 'a \<Rightarrow> string option" where
  "exception_type (Inl (Throw text)) = Some ''const char *''"
| "exception_type (Inl Terminate) = None"
| "exception_type (Inl Undefined) = None"
| "exception_type (Inr v) = None"

section \<open>Heap lemmas\<close>

lemma heap_load_new_same: "heap_load (fst (heap_new c h)) (snd (heap_new c h)) = Some c"
  by (simp add: heap_load_def heap_new_def)

lemma heap_load_new_other:
  "heap_load a h = Some x \<Longrightarrow> heap_load a (snd (heap_new c h)) = Some x"
  by (auto simp: heap_load_def heap_new_def nth_append split: if_splits)


lemma heap_load_store_other:
  "a \<noteq> b \<Longrightarrow> heap_load a (heap_store b c h) = heap_load a h"
  by (simp add: heap_load_def heap_store_def)



lemma heap_load_deleted_other: "a \<noteq> b \<Longrightarrow> heap_load a (h[b := None]) = heap_load a h"
  by (simp add: heap_load_def)

section \<open>SharedPtr: the strong count\<close>
























lemma owner_run_example:
  "owner_run [CopyOf 0, Destroy 0, Destroy 0]
     ([fst (SharedPtr_ctor (Some 0) (UserDeleter 7) \<lparr>objects = [Some ()], counters = [], holders = [], calls = []\<rparr>)],
      snd (SharedPtr_ctor (Some 0) (UserDeleter 7) \<lparr>objects = [Some ()], counters = [], holders = [], calls = []\<rparr>))
   = Inr ([], \<lparr>objects = [Some ()], counters = [None], holders = [None, None], calls = [(UserDeleter 7, Some 0)]\<rparr>)"
  by (simp add: SharedPtr_ctor_def heap_new_def Function_ctor_def SharedPtr_copy_def share_from_def
      Function_copy_assign_def heap_load_def fetch_add_def heap_store_def SharedPtr_dtor_def release_def
      fetch_sub_def invoke_deleter_def Function_call_def destroy_deleter_def Function_dtor_def heap_delete_def)

section \<open>Any: construction, cast and copy\<close>

lemma run_deleter_null:
  "run_deleter d (None, s) = Inr (s\<lparr>calls := calls s @ [(d, None)]\<rparr>)"
  by (cases d) simp_all

lemma UniquePtr_reset_null:
  assumes "up_ptr u = None" "callable (up_deleter u) = Some a" "heap_load a (holders s) = Some d0"
  shows "UniquePtr_reset u ptr d s =
     Inr (\<lparr>up_ptr = ptr, up_deleter = \<lparr>callable = Some (length (holders s))\<rparr>\<rparr>,
          s\<lparr>calls := calls s @ [(d0, None)], holders := holders s @ [Some d]\<rparr>)"
  using assms
  by (simp add: UniquePtr_reset_def invoke_deleter_def Function_call_def run_deleter_null
      Function_ctor_def heap_new_def)

lemma Any_default_value:
  "Any_default s =
     (\<lparr>content = \<lparr>up_ptr = None, up_deleter = \<lparr>callable = Some (length (holders s))\<rparr>\<rparr>\<rparr>,
      s\<lparr>holders := holders s @ [Some DefaultDeleter]\<rparr>)"
  by (simp add: Any_default_def UniquePtr_ctor_def Function_ctor_def heap_new_def)

lemma Any_ctor_holder:
  "\<exists>u s'. Any_ctor T v s = Inr (\<lparr>content = u\<rparr>, s') \<and> up_ptr u = Some (length (objects s)) \<and>
     objects s' = objects s @ [Some \<lparr>holder_type = T, held = v\<rparr>]"
proof -
  let ?u = "\<lparr>up_ptr = None, up_deleter = \<lparr>callable = Some (length (holders s))\<rparr>\<rparr>"
  let ?s1 = "s\<lparr>holders := holders s @ [Some DefaultDeleter],
                objects := objects s @ [Some \<lparr>holder_type = T, held = v\<rparr>]\<rparr>"
  have "heap_load (length (holders s)) (holders ?s1) = Some DefaultDeleter"
    by (simp add: heap_load_def)
  then have "UniquePtr_reset ?u (Some (length (objects s))) DefaultDeleter ?s1 =
     Inr (\<lparr>up_ptr = Some (length (objects s)),
            up_deleter = \<lparr>callable = Some (length (holders ?s1))\<rparr>\<rparr>,
          ?s1\<lparr>calls := calls ?s1 @ [(DefaultDeleter, None)],
               holders := holders ?s1 @ [Some DefaultDeleter]\<rparr>)"
    by (intro UniquePtr_reset_null) simp_all
  then show ?thesis
    by (simp add: Any_ctor_def Any_default_value heap_new_def)
qed

lemma Any_ctor_cast:
  "\<exists>a s'. Any_ctor T v s = Inr (a, s') \<and> has_value a \<and> cast T a s' = Inr v \<and>
     (\<forall>U. U \<noteq> T \<longrightarrow> cast U a s' = Inl (Throw ''wtfff''))"
proof -
  obtain u s' where "Any_ctor T v s = Inr (\<lparr>content = u\<rparr>, s')"
    "up_ptr u = Some (length (objects s))"
    "objects s' = objects s @ [Some \<lparr>holder_type = T, held = v\<rparr>]"
    using Any_ctor_holder [of T v s] by blast
  then show ?thesis
    by (simp add: has_value_def cast_def heap_load_def)
qed

text \<open>
  Claim C2. For every value \<open>v\<close> and every type \<open>T\<close>, constructing an \<open>Any\<close> from \<open>v\<close>
  as a \<open>T\<close> returns normally, and \<open>cast<T>()\<close> on the result succeeds and returns \<open>v\<close>.
\<close>

theorem Any_cast_roundtrip:
  "\<exists>a s'. Any_ctor T v s = Inr (a, s') \<and> has_value a \<and> cast T a s' = Inr v"
  using Any_ctor_cast [of T v s] by blast

theorem Any_cast_roundtrip_witness:
  "\<exists>a s'. Any_ctor ''int'' (42 :: int) \<lparr>objects = [], counters = [], holders = [], calls = []\<rparr>
       = Inr (a, s') \<and> has_value a \<and> cast ''int'' a s' = Inr 42"
  by (rule Any_cast_roundtrip)

text \<open>
  Claim C4. For an \<open>Any\<close> constructed from a \<open>T\<close> and every type \<open>U\<close> other than \<open>T\<close>,
  \<open>cast<U>()\<close> throws (the literal \<open>"wtfff"\<close>) and yields no value; a cast writes
  nothing, so after the failure \<open>cast<T>()\<close> on the same object still returns the value
  it was constructed from.
\<close>

theorem Any_cast_mismatch:
  assumes "U \<noteq> T"
  shows "\<exists>a s'. Any_ctor T v s = Inr (a, s') \<and> cast U a s' = Inl (Throw ''wtfff'') \<and>
     cast T a s' = Inr v"
  using Any_ctor_cast [of T v s] assms by blast

theorem Any_cast_mismatch_witness:
  "''double'' \<noteq> ''int'' \<and>
   (\<exists>a s'. Any_ctor ''int'' (42 :: int) \<lparr>objects = [], counters = [], holders = [], calls = []\<rparr>
        = Inr (a, s') \<and>
      cast ''double'' a s' = Inl (Throw ''wtfff'') \<and> cast ''int'' a s' = Inr 42)"
proof -
  have h: "''double'' \<noteq> ''int''" by simp
  show ?thesis by (rule conjI [OF h Any_cast_mismatch [OF h]])
qed

lemma Any_ctor_example:
  "Any_ctor ''int'' (42 :: int) \<lparr>objects = [], counters = [], holders = [], calls = []\<rparr> =
     Inr (\<lparr>content = \<lparr>up_ptr = Some 0, up_deleter = \<lparr>callable = Some 1\<rparr>\<rparr>\<rparr>,
          \<lparr>objects = [Some \<lparr>holder_type = ''int'', held = 42\<rparr>], counters = [],
           holders = [Some DefaultDeleter, Some DefaultDeleter],
           calls = [(DefaultDeleter, None)]\<rparr>)"
  by (simp add: Any_ctor_def Any_default_def UniquePtr_ctor_def Function_ctor_def heap_new_def
      UniquePtr_reset_def invoke_deleter_def Function_call_def heap_load_def)

lemma Any_copy_holder:
  assumes q: "up_ptr (content other) = Some q" and h: "heap_load q (objects s) = Some h"
  shows "\<exists>u s'. Any_copy vinit other s = Inr (\<lparr>content = u\<rparr>, s') \<and>
     up_ptr u = Some (length (objects s)) \<and>
     objects s' = objects s @ [Some (clone vinit h)]"
proof -
  let ?u = "\<lparr>up_ptr = None, up_deleter = \<lparr>callable = Some (length (holders s))\<rparr>\<rparr>"
  let ?s1 = "s\<lparr>holders := holders s @ [Some DefaultDeleter],
                objects := objects s @ [Some (clone vinit h)]\<rparr>"
  have "heap_load (length (holders s)) (holders ?s1) = Some DefaultDeleter"
    by (simp add: heap_load_def)
  then have "UniquePtr_reset ?u (Some (length (objects s))) DefaultDeleter ?s1 =
     Inr (\<lparr>up_ptr = Some (length (objects s)),
            up_deleter = \<lparr>callable = Some (length (holders ?s1))\<rparr>\<rparr>,
          ?s1\<lparr>calls := calls ?s1 @ [(DefaultDeleter, None)],
               holders := holders ?s1 @ [Some DefaultDeleter]\<rparr>)"
    by (intro UniquePtr_reset_null) simp_all
  then show ?thesis
    using q h by (simp add: Any_copy_def Any_default_value heap_new_def)
qed

text \<open>
  Claim C3 asks that the copy constructor of \<open>Any\<close> preserve the held value. The code
  does not: \<open>clone()\<close> builds \<open>new Holder(T{})\<close>, so the copy has the dynamic type of
  the original but holds the value-initialised \<open>T{}\<close>. For every \<open>v\<close>, \<open>cast<T>()\<close> on
  the copy succeeds and returns \<open>T{}\<close>, while the original still returns \<open>v\<close>.
\<close>

theorem Any_copy_value_initialised:
  "\<exists>a s1 b s2. Any_ctor T v s = Inr (a, s1) \<and> Any_copy vinit a s1 = Inr (b, s2) \<and>
     cast T b s2 = Inr (vinit T) \<and> cast T a s2 = Inr v"
proof -
  obtain u s1 where a: "Any_ctor T v s = Inr (\<lparr>content = u\<rparr>, s1)"
    and u: "up_ptr u = Some (length (objects s))"
    and o1: "objects s1 = objects s @ [Some \<lparr>holder_type = T, held = v\<rparr>]"
    using Any_ctor_holder [of T v s] by blast
  have q: "up_ptr (content \<lparr>content = u\<rparr>) = Some (length (objects s))"
    using u by simp
  have h: "heap_load (length (objects s)) (objects s1) = Some \<lparr>holder_type = T, held = v\<rparr>"
    by (simp add: o1 heap_load_def)
  obtain w s2 where b: "Any_copy vinit \<lparr>content = u\<rparr> s1 = Inr (\<lparr>content = w\<rparr>, s2)"
    and w: "up_ptr w = Some (length (objects s1))"
    and o2: "objects s2 = objects s1 @ [Some (clone vinit \<lparr>holder_type = T, held = v\<rparr>)]"
    using Any_copy_holder [OF q h, of vinit] by blast
  have "cast T \<lparr>content = w\<rparr> s2 = Inr (vinit T)"
    by (simp add: cast_def w o2 heap_load_def clone_def)
  moreover have "cast T \<lparr>content = u\<rparr> s2 = Inr v"
    by (simp add: cast_def u o2 o1 heap_load_def nth_append)
  ultimately show ?thesis using a b by blast
qed

lemma Any_copy_example:
  "\<exists>a s1 b s2.
     Any_ctor ''int'' (42 :: int) \<lparr>objects = [], counters = [], holders = [], calls = []\<rparr> = Inr (a, s1) \<and>
     Any_copy (\<lambda>T. 0) a s1 = Inr (b, s2) \<and> cast ''int'' b s2 = Inr 0 \<and> cast ''int'' b s2 \<noteq> Inr 42"
  apply (simp add: Any_ctor_example)
  apply (simp add: Any_copy_def Any_default_def UniquePtr_ctor_def Function_ctor_def heap_new_def
      UniquePtr_reset_def invoke_deleter_def Function_call_def heap_load_def clone_def cast_def)
  done

text \<open>
  Claim C9. An empty \<open>Any\<close>, default-constructed or left behind by the move constructor,
  has no value, and \<open>cast<T>()\<close> on it throws for every \<open>T\<close>, in whatever state it is
  called; the thrown object is the one a cast to a wrong type throws.
\<close>

theorem Any_empty_cast:
  assumes "(U :: 'ty) \<noteq> T"
  shows "\<not> has_value (fst (Any_default (s0 :: ('ty, 'v) Holder state))) \<and>
     cast T (fst (Any_default s0)) s = Inl (Throw ''wtfff'') \<and>
     \<not> has_value (snd (Any_move a)) \<and>
     cast T (snd (Any_move a)) s = Inl (Throw ''wtfff'') \<and>
     (\<exists>b t. Any_ctor U v s = Inr (b, t) \<and> cast T b t = cast T (snd (Any_move a)) t)"
proof -
  have e: "up_ptr (content (snd (Any_move a))) = None"
    by (simp add: Any_move_def UniquePtr_move_def Function_move_def)
  from assms have "T \<noteq> U" by simp
  then obtain b t where "Any_ctor U v s = Inr (b, t)" "cast T b t = Inl (Throw ''wtfff'')"
    using Any_ctor_cast [of U v s] by blast
  then show ?thesis
    using e by (auto simp: Any_default_value has_value_def cast_def)
qed

theorem Any_empty_cast_witness:
  "''int'' \<noteq> ''double'' \<and>
   (\<not> has_value (fst (Any_default
        (\<lparr>objects = [], counters = [], holders = [], calls = []\<rparr> :: (string, int) Holder state))) \<and>
    cast ''double'' (fst (Any_default
        (\<lparr>objects = [], counters = [], holders = [], calls = []\<rparr> :: (string, int) Holder state)))
      \<lparr>objects = [], counters = [], holders = [Some DefaultDeleter], calls = []\<rparr>
      = (Inl (Throw ''wtfff'') :: error + int) \<and>
    \<not> has_value (snd (Any_move \<lparr>content = \<lparr>up_ptr = Some 0, up_deleter = \<lparr>callable = Some 1\<rparr>\<rparr>\<rparr>)) \<and>
    cast ''double'' (snd (Any_move \<lparr>content = \<lparr>up_ptr = Some 0, up_deleter = \<lparr>callable = Some 1\<rparr>\<rparr>\<rparr>))
      \<lparr>objects = [], counters = [], holders = [Some DefaultDeleter], calls = []\<rparr>
      = (Inl (Throw ''wtfff'') :: error + int) \<and>
    (\<exists>b t. Any_ctor ''int'' (42 :: int)
         \<lparr>objects = [], counters = [], holders = [Some DefaultDeleter], calls = []\<rparr> = Inr (b, t) \<and>
       cast ''double'' b t =
       cast ''double'' (snd (Any_move \<lparr>content = \<lparr>up_ptr = Some 0, up_deleter = \<lparr>callable = Some 1\<rparr>\<rparr>\<rparr>)) t))"
proof -
  have h: "''int'' \<noteq> ''double''" by simp
  show ?thesis by (rule conjI [OF h Any_empty_cast [OF h]])
qed

section \<open>Function: moves and calls\<close>

text \<open>
  Claim C6 asks that a move leave the source \<open>Function\<close> empty. The code does not: the
  defaulted move constructor and move assignment copy \<open>callable_\<close> and leave it in the
  source. After a move from a \<open>Function\<close> holding \<open>c\<close>, source and target point at the
  same holder, and calling the moved-from source calls \<open>c\<close> instead of throwing.
\<close>

theorem Function_move_keeps_source:
  "callable (snd (Function_move (fst (Function_ctor c h)))) = Some (length h) \<and>
   callable (fst (Function_move (fst (Function_ctor c h)))) = Some (length h) \<and>
   callable (snd (Function_move_assign this (fst (Function_ctor c h)))) = Some (length h) \<and>
   callable (fst (Function_move_assign this (fst (Function_ctor c h)))) = Some (length h) \<and>
   Function_call app (snd (Function_ctor c h)) (snd (Function_move (fst (Function_ctor c h)))) x
     = app c x \<and>
   Function_call app (snd (Function_ctor c h))
     (snd (Function_move_assign this (fst (Function_ctor c h)))) x = app c x"
  by (simp add: Function_move_def Function_move_assign_def Function_ctor_def heap_new_def
      Function_call_def heap_load_def)

lemma Function_move_example:
  "Function_call (\<lambda>c x. Inr (c + x)) [Some 1] (snd (Function_move \<lparr>callable = Some 0\<rparr>)) (2 :: int)
     = (Inr 3 :: error + int)"
  by (simp add: Function_move_def Function_call_def heap_load_def)

text \<open>
  Claim C7, as stated, wants the error of an empty call to be a typed error that differs
  from the one of a failed cast. Both are thrown string literals: the exception thrown by
  calling an empty \<open>Function\<close> and the one thrown by \<open>cast<double>()\<close> on an \<open>Any\<close>
  holding the \<open>int\<close> 42 have the same type.
\<close>

theorem empty_call_error_not_typed:
  "\<not> (exception_type (Function_call (\<lambda>c x. Inr (c + x)) [] Function_empty (2 :: int) :: error + int)
      \<noteq> exception_type
          (cast ''double'' \<lparr>content = \<lparr>up_ptr = Some 0, up_deleter = \<lparr>callable = Some 1\<rparr>\<rparr>\<rparr>
             \<lparr>objects = [Some \<lparr>holder_type = ''int'', held = 42 :: int\<rparr>], counters = [],
              holders = [Some DefaultDeleter, Some DefaultDeleter],
              calls = [(DefaultDeleter, None)]\<rparr>))"
  by (simp add: Function_call_def Function_empty_def cast_def heap_load_def)

text \<open>
  Claim C7, amended. Calling a \<open>Function\<close> whose \<open>callable_\<close> is null throws the string
  literal \<open>"wtf"\<close>: a \<open>const char *\<close>, as the \<open>"wtfff"\<close> of a failed cast is, and
  different from it only in its text. When a callable is held (the pointer names a live
  holder, as after construction from a callable), the call forwards the arguments to it
  and returns its result.
\<close>

theorem Function_call_empty_or_held:
  fixes app :: "'c \<Rightarrow> 'a \<Rightarrow> error + 'r"
  shows "(callable f = None \<longrightarrow>
      Function_call app h f x = Inl (Throw ''wtf'') \<and>
      Function_call app h f x \<noteq> Inl (Throw ''wtfff'') \<and>
      exception_type (Function_call app h f x) = Some ''const char *'' \<and>
      exception_type (Inl (Throw ''wtfff'') :: error + 'r) = Some ''const char *'') \<and>
   (\<forall>a c. callable f = Some a \<and> heap_load a h = Some c \<longrightarrow> Function_call app h f x = app c x) \<and>
   Function_call app (snd (Function_ctor c h)) (fst (Function_ctor c h)) x = app c x"
  by (simp add: Function_call_def Function_ctor_def heap_new_def heap_load_def)

theorem Function_call_empty_or_held_witness:
  "callable Function_empty = None \<and>
   Function_call (\<lambda>c x. Inr (c + x)) [] Function_empty (2 :: int) = (Inl (Throw ''wtf'') :: error + int) \<and>
   callable \<lparr>callable = Some 0\<rparr> = Some 0 \<and> heap_load 0 [Some (1 :: int)] = Some 1 \<and>
   Function_call (\<lambda>c x. Inr (c + x)) [Some 1] \<lparr>callable = Some 0\<rparr> (2 :: int) = (Inr 3 :: error + int)"
proof -
  have e: "callable Function_empty = None" by (simp add: Function_empty_def)
  have l: "callable \<lparr>callable = Some 0\<rparr> = Some 0 \<and> heap_load 0 [Some (1 :: int)] = Some 1"
    by (simp add: heap_load_def)
  have a: "Function_call (\<lambda>c x. Inr (c + x)) [] Function_empty (2 :: int)
      = (Inl (Throw ''wtf'') :: error + int)"
    using Function_call_empty_or_held [of Function_empty "\<lambda>c x. (Inr (c + x) :: error + int)" "[]" "2 :: int"] e
    by simp
  have b: "Function_call (\<lambda>c x. Inr (c + x)) [Some 1] \<lparr>callable = Some 0\<rparr> (2 :: int)
      = (Inr 3 :: error + int)"
    using Function_call_empty_or_held [of "\<lparr>callable = Some 0\<rparr>" "\<lambda>c x. (Inr (c + x) :: error + int)" "[Some 1]" "2 :: int"] l
    by simp
  from e l a b show ?thesis by simp
qed

section \<open>Moves of UniquePtr and SharedPtr\<close>

lemma invoke_deleter_dangling:
  assumes "callable f = Some a" "heap_load a (holders s) = None"
  shows "invoke_deleter f p s = Inl Undefined"
  using assms by (simp add: invoke_deleter_def Function_call_def)

lemma UniquePtr_ctor_value:
  "UniquePtr_ctor p d s =
     (\<lparr>up_ptr = p, up_deleter = \<lparr>callable = Some (length (holders s))\<rparr>\<rparr>,
      s\<lparr>holders := holders s @ [Some d]\<rparr>)"
  by (simp add: UniquePtr_ctor_def Function_ctor_def heap_new_def)

lemma SharedPtr_ctor_value:
  "SharedPtr_ctor p d s =
     (\<lparr>sp_ptr = p, sp_ref_count = Some (length (counters s)),
        sp_deleter = \<lparr>callable = Some (length (holders s))\<rparr>\<rparr>,
      s\<lparr>counters := counters s @ [Some 1], holders := holders s @ [Some d]\<rparr>)"
  by (simp add: SharedPtr_ctor_def Function_ctor_def heap_new_def)

lemma UniquePtr_moved_from_dtor:
  "UniquePtr_dtor (snd (UniquePtr_move (fst (UniquePtr_ctor p d s)))) (snd (UniquePtr_ctor p d s)) =
     Inr (s\<lparr>holders := holders s @ [None], calls := calls s @ [(d, None)]\<rparr>)"
proof -
  let ?f = "\<lparr>callable = Some (length (holders s))\<rparr>"
  let ?s1 = "s\<lparr>holders := holders s @ [Some d]\<rparr>"
  have src: "snd (UniquePtr_move \<lparr>up_ptr = p, up_deleter = ?f\<rparr>) = \<lparr>up_ptr = None, up_deleter = ?f\<rparr>"
    by (simp add: UniquePtr_move_def Function_move_def)
  have inv: "invoke_deleter ?f None ?s1 = Inr (?s1\<lparr>calls := calls ?s1 @ [(d, None)]\<rparr>)"
    by (simp add: invoke_deleter_def Function_call_def heap_load_def run_deleter_null)
  have "destroy_deleter ?f (?s1\<lparr>calls := calls ?s1 @ [(d, None)]\<rparr>) =
      Inr (s\<lparr>holders := holders s @ [None], calls := calls s @ [(d, None)]\<rparr>)"
    by (simp add: destroy_deleter_def Function_dtor_def heap_delete_def heap_load_def)
  with inv show ?thesis
    by (simp add: UniquePtr_dtor_def UniquePtr_ctor_value src)
qed

lemma UniquePtr_move_target_dtor:
  "UniquePtr_dtor (fst (UniquePtr_move (fst (UniquePtr_ctor p d s))))
     (s\<lparr>holders := holders s @ [None], calls := calls s @ [(d, None)]\<rparr>) = Inl Undefined"
proof -
  let ?u = "\<lparr>up_ptr = p, up_deleter = \<lparr>callable = Some (length (holders s))\<rparr>\<rparr>"
  let ?s2 = "s\<lparr>holders := holders s @ [None], calls := calls s @ [(d, None)]\<rparr>"
  have tgt: "fst (UniquePtr_move ?u) = ?u"
    by (simp add: UniquePtr_move_def Function_move_def)
  have "invoke_deleter (up_deleter ?u) (up_ptr ?u) ?s2 = Inl Undefined"
    by (rule invoke_deleter_dangling [of _ "length (holders s)"]) (simp_all add: heap_load_def)
  then show ?thesis
    by (simp add: UniquePtr_dtor_def UniquePtr_ctor_value tgt)
qed

lemma SharedPtr_moved_from_dtor:
  "SharedPtr_dtor (snd (SharedPtr_move (fst (SharedPtr_ctor p d s)))) (snd (SharedPtr_ctor p d s)) =
     Inr (s\<lparr>counters := counters s @ [Some 1], holders := holders s @ [None]\<rparr>)"
proof -
  let ?f = "\<lparr>callable = Some (length (holders s))\<rparr>"
  let ?sp = "\<lparr>sp_ptr = p, sp_ref_count = Some (length (counters s)), sp_deleter = ?f\<rparr>"
  let ?s1 = "s\<lparr>counters := counters s @ [Some 1], holders := holders s @ [Some d]\<rparr>"
  have src: "snd (SharedPtr_move ?sp) = \<lparr>sp_ptr = None, sp_ref_count = None, sp_deleter = ?f\<rparr>"
    by (simp add: SharedPtr_move_def Function_move_assign_def Function_empty_def)
  have "destroy_deleter ?f ?s1 =
      Inr (s\<lparr>counters := counters s @ [Some 1], holders := holders s @ [None]\<rparr>)"
    by (simp add: destroy_deleter_def Function_dtor_def heap_delete_def heap_load_def)
  then show ?thesis
    by (simp add: SharedPtr_dtor_def release_def SharedPtr_ctor_value src)
qed

lemma SharedPtr_move_target_dtor:
  "SharedPtr_dtor (fst (SharedPtr_move (fst (SharedPtr_ctor p d s))))
     (s\<lparr>counters := counters s @ [Some 1], holders := holders s @ [None]\<rparr>) = Inl Undefined"
proof -
  let ?sp = "\<lparr>sp_ptr = p, sp_ref_count = Some (length (counters s)),
      sp_deleter = \<lparr>callable = Some (length (holders s))\<rparr>\<rparr>"
  let ?s2 = "s\<lparr>counters := counters s @ [Some 1], holders := holders s @ [None]\<rparr>"
  have tgt: "fst (SharedPtr_move ?sp) = ?sp"
    by (simp add: SharedPtr_move_def Function_move_assign_def Function_empty_def)
  have fs: "fetch_sub (length (counters s)) ?s2
      = Inr (1, ?s2\<lparr>counters := heap_store (length (counters s)) 0 (counters ?s2)\<rparr>)"
    by (simp add: fetch_sub_def heap_load_def)
  have "invoke_deleter (sp_deleter ?sp) (sp_ptr ?sp)
      (?s2\<lparr>counters := heap_store (length (counters s)) 0 (counters ?s2)\<rparr>) = Inl Undefined"
    by (rule invoke_deleter_dangling [of _ "length (holders s)"]) (simp_all add: heap_load_def)
  then have "release ?sp ?s2 = Inl Undefined"
    by (simp add: release_def fs)
  then show ?thesis
    by (simp add: SharedPtr_dtor_def SharedPtr_ctor_value tgt)
qed

text \<open>
  Claim C8 asks that destroying a moved-from owner free nothing and that the target keep
  the destroyer. After a move construction the source's pointer is null, but source and
  target hold the same destroyer holder (the move of \<open>Function\<close> copies the pointer).
  Destroying the source of a \<open>UniquePtr\<close> calls the destroyer on the null pointer and
  deletes that holder; destroying the source of a \<open>SharedPtr\<close> deletes it as well. The
  target is left with a dangling \<open>deleter_\<close>, and destroying the target is undefined.
\<close>

theorem moved_from_owner_frees_shared_destroyer:
  "up_ptr (snd (UniquePtr_move (fst (UniquePtr_ctor p d s)))) = None \<and>
   up_deleter (snd (UniquePtr_move (fst (UniquePtr_ctor p d s)))) =
     up_deleter (fst (UniquePtr_move (fst (UniquePtr_ctor p d s)))) \<and>
   UniquePtr_dtor (snd (UniquePtr_move (fst (UniquePtr_ctor p d s)))) (snd (UniquePtr_ctor p d s)) =
     Inr (s\<lparr>holders := holders s @ [None], calls := calls s @ [(d, None)]\<rparr>) \<and>
   UniquePtr_dtor (fst (UniquePtr_move (fst (UniquePtr_ctor p d s))))
     (s\<lparr>holders := holders s @ [None], calls := calls s @ [(d, None)]\<rparr>) = Inl Undefined \<and>
   sp_ptr (snd (SharedPtr_move (fst (SharedPtr_ctor p d s)))) = None \<and>
   sp_deleter (snd (SharedPtr_move (fst (SharedPtr_ctor p d s)))) =
     sp_deleter (fst (SharedPtr_move (fst (SharedPtr_ctor p d s)))) \<and>
   SharedPtr_dtor (snd (SharedPtr_move (fst (SharedPtr_ctor p d s)))) (snd (SharedPtr_ctor p d s)) =
     Inr (s\<lparr>counters := counters s @ [Some 1], holders := holders s @ [None]\<rparr>) \<and>
   SharedPtr_dtor (fst (SharedPtr_move (fst (SharedPtr_ctor p d s))))
     (s\<lparr>counters := counters s @ [Some 1], holders := holders s @ [None]\<rparr>) = Inl Undefined"
proof -
  have "up_ptr (snd (UniquePtr_move (fst (UniquePtr_ctor p d s)))) = None"
    "up_deleter (snd (UniquePtr_move (fst (UniquePtr_ctor p d s)))) =
     up_deleter (fst (UniquePtr_move (fst (UniquePtr_ctor p d s))))"
    by (simp_all add: UniquePtr_move_def Function_move_def UniquePtr_ctor_def Function_ctor_def
        heap_new_def)
  moreover have "sp_ptr (snd (SharedPtr_move (fst (SharedPtr_ctor p d s)))) = None"
    "sp_deleter (snd (SharedPtr_move (fst (SharedPtr_ctor p d s)))) =
     sp_deleter (fst (SharedPtr_move (fst (SharedPtr_ctor p d s))))"
    by (simp_all add: SharedPtr_move_def Function_move_assign_def Function_empty_def
        SharedPtr_ctor_def Function_ctor_def heap_new_def)
  ultimately show ?thesis
    using UniquePtr_moved_from_dtor [of p d s] UniquePtr_move_target_dtor [of p d s]
      SharedPtr_moved_from_dtor [of p d s] SharedPtr_move_target_dtor [of p d s]
    by simp
qed

lemma UniquePtr_move_example:
  "UniquePtr_dtor \<lparr>up_ptr = None, up_deleter = \<lparr>callable = Some 0\<rparr>\<rparr>
     \<lparr>objects = [Some ()], counters = [], holders = [Some (UserDeleter 7)], calls = []\<rparr>
   = Inr \<lparr>objects = [Some ()], counters = [], holders = [None], calls = [(UserDeleter 7, None)]\<rparr> \<and>
   UniquePtr_dtor \<lparr>up_ptr = Some 0, up_deleter = \<lparr>callable = Some 0\<rparr>\<rparr>
     \<lparr>objects = [Some ()], counters = [], holders = [None], calls = [(UserDeleter 7, None)]\<rparr>
   = Inl Undefined"
  by (simp add: UniquePtr_dtor_def invoke_deleter_def Function_call_def heap_load_def
      destroy_deleter_def Function_dtor_def heap_delete_def)

section \<open>WeakPtr\<close>

lemma expired_empty:
  "expired WeakPtr_default s = Inr True \<and> expired (WeakPtr_copy WeakPtr_default) s = Inr True \<and>
   expired (fst (WeakPtr_move WeakPtr_default)) s = Inr True \<and>
   expired (snd (WeakPtr_move w)) s = Inr True"
  by (simp add: expired_def WeakPtr_default_def WeakPtr_copy_def WeakPtr_move_def)

section \<open>SharedPtr: reset\<close>

lemma run_deleter_frame:
  "run_deleter d (p, s) = Inr s' \<Longrightarrow> holders s' = holders s \<and> counters s' = counters s"
  by (cases d; cases p) (auto split: sum.splits)

lemma release_holders:
  assumes "release sp s = Inr s'"
  shows "holders s' = holders s"
proof (cases "sp_ref_count sp")
  case None
  with assms show ?thesis by (simp add: release_def)
next
  case (Some c)
  show ?thesis
  proof (cases "heap_load c (counters s)")
    case None
    with assms Some show ?thesis by (simp add: release_def fetch_sub_def)
  next
    case (Some n)
    define s1 where "s1 = s\<lparr>counters := heap_store c (n - 1) (counters s)\<rparr>"
    have fs: "fetch_sub c s = Inr (n, s1)"
      using Some by (simp add: fetch_sub_def s1_def)
    show ?thesis
    proof (cases "n = 1")
      case False
      with assms \<open>sp_ref_count sp = Some c\<close> fs have "s' = s1"
        by (simp add: release_def)
      then show ?thesis by (simp add: s1_def)
    next
      case True
      with assms \<open>sp_ref_count sp = Some c\<close> fs obtain s2 where
        inv: "invoke_deleter (sp_deleter sp) (sp_ptr sp) s1 = Inr s2"
        and fin: "\<exists>cs. s' = s2\<lparr>counters := cs\<rparr>"
        by (auto simp: release_def split: sum.splits)
      from inv obtain d where "run_deleter d (sp_ptr sp, s1) = Inr s2"
        by (auto simp: invoke_deleter_def Function_call_def split: option.splits)
      from run_deleter_frame [OF this] have "holders s2 = holders s"
        by (simp add: s1_def)
      with fin show ?thesis by auto
    qed
  qed
qed

text \<open>
  Claim C10. When the release of the current referent returns normally, \<open>reset\<close> with a
  null pointer is that release followed by setting \<open>ptr_\<close> and \<open>ref_count_\<close> to null:
  \<open>deleter_\<close> and every holder stay as they were, and the destroyer passed to the call
  has no effect on the result. \<open>reset\<close> with a non-null pointer installs the pointer, a
  new counter holding 1, and a new holder with the destroyer passed to the call.
\<close>

theorem reset_null_keeps_deleter:
  assumes rel: "release this s = Inr s1"
  shows "reset this None d s = Inr (this\<lparr>sp_ptr := None, sp_ref_count := None\<rparr>, s1) \<and>
     reset this None d s = reset this None d' s \<and>
     holders s1 = holders s \<and>
     reset this (Some p) d s =
       Inr (\<lparr>sp_ptr = Some p, sp_ref_count = Some (length (counters s1)),
              sp_deleter = \<lparr>callable = Some (length (holders s1))\<rparr>\<rparr>,
            s1\<lparr>counters := counters s1 @ [Some 1], holders := holders s1 @ [Some d]\<rparr>)"
  using rel release_holders [OF rel]
  by (simp add: reset_def heap_new_def Function_ctor_def)

theorem reset_null_keeps_deleter_witness:
  "(let this = \<lparr>sp_ptr = Some 0, sp_ref_count = Some 0, sp_deleter = \<lparr>callable = Some 0\<rparr>\<rparr>;
        s = \<lparr>objects = [Some ()], counters = [Some 1], holders = [Some (UserDeleter 7)], calls = []\<rparr>;
        s1 = \<lparr>objects = [Some ()], counters = [None], holders = [Some (UserDeleter 7)],
              calls = [(UserDeleter 7, Some 0)]\<rparr>
    in release this s = Inr s1 \<and>
       reset this None (UserDeleter 9) s =
         Inr (\<lparr>sp_ptr = None, sp_ref_count = None, sp_deleter = \<lparr>callable = Some 0\<rparr>\<rparr>, s1) \<and>
       reset this (Some 5) (UserDeleter 9) s =
         Inr (\<lparr>sp_ptr = Some 5, sp_ref_count = Some 1, sp_deleter = \<lparr>callable = Some 1\<rparr>\<rparr>,
              \<lparr>objects = [Some ()], counters = [None, Some 1],
               holders = [Some (UserDeleter 7), Some (UserDeleter 9)],
               calls = [(UserDeleter 7, Some 0)]\<rparr>))"
proof -
  define this where "this = \<lparr>sp_ptr = Some 0, sp_ref_count = Some 0, sp_deleter = \<lparr>callable = Some 0\<rparr>\<rparr>"
  define s :: "unit state" where
    "s = \<lparr>objects = [Some ()], counters = [Some 1], holders = [Some (UserDeleter 7)], calls = []\<rparr>"
  define s1 :: "unit state" where
    "s1 = \<lparr>objects = [Some ()], counters = [None], holders = [Some (UserDeleter 7)],
           calls = [(UserDeleter 7, Some 0)]\<rparr>"
  have rel: "release this s = Inr s1"
    by (simp add: release_def fetch_sub_def heap_load_def heap_store_def invoke_deleter_def
        Function_call_def heap_delete_def this_def s_def s1_def)
  from reset_null_keeps_deleter [OF rel, where d = "UserDeleter 9" and p = 5]
  have "reset this None (UserDeleter 9) s =
         Inr (\<lparr>sp_ptr = None, sp_ref_count = None, sp_deleter = \<lparr>callable = Some 0\<rparr>\<rparr>, s1)"
    and "reset this (Some 5) (UserDeleter 9) s =
         Inr (\<lparr>sp_ptr = Some 5, sp_ref_count = Some 1, sp_deleter = \<lparr>callable = Some 1\<rparr>\<rparr>,
              \<lparr>objects = [Some ()], counters = [None, Some 1],
               holders = [Some (UserDeleter 7), Some (UserDeleter 9)],
               calls = [(UserDeleter 7, Some 0)]\<rparr>)"
    by (simp_all add: this_def s1_def)
  with rel show ?thesis
    unfolding Let_def this_def s_def s1_def by simp
qed

end
